theory Spec2Isabelle
  imports Main "HOL-Library.Char_ord" "HOL-Library.List_Lexorder" "HOL-Library.Sublist"
    "HOL-Library.FSet" "HOL-Library.Finite_Map"
begin

section \<open>Strings, lists and exceptions of the Python source\<close>

text \<open>
  The module \<^verbatim>\<open>code_include/source_code.py\<close> is Python 2: a \<^verbatim>\<open>str\<close> is a byte
  string, modelled as \<^typ>\<open>string\<close>, and \<^verbatim>\<open>sorted\<close> on strings is the bytewise
  lexicographic order, which is the order of \<^typ>\<open>char list\<close> here. A name of the source
  that starts with an underscore loses it (\<^verbatim>\<open>_get_module_tag\<close> is \<open>get_module_tag\<close>);
  \<^verbatim>\<open>_get_source_code\<close>, which would clash with \<^verbatim>\<open>get_source_code\<close>, is
  \<open>private_get_source_code\<close>.
\<close>

text \<open>The two messages the source gives to \<^verbatim>\<open>EnvironmentError\<close> (lines 26 and 45; line 205).\<close>

datatype env_message =
    NotConfigured
  | UrlNotInProjects string "string list"

text \<open>
  Every exception that leaves the module, each with the values formatted into its message.
  \<open>RuntimeError\<close> is the one of line 178. The next four are the faults of the
  interpreter: unpacking \<^verbatim>\<open>uri.split("#")\<close> into two names, indexing an empty list,
  iterating \<^verbatim>\<open>None\<close>, and calling \<^verbatim>\<open>getText\<close> on \<^verbatim>\<open>None\<close>. \<open>IOError\<close> is what
  \<^verbatim>\<open>open\<close> and \<^verbatim>\<open>read\<close> raise on a file that cannot be read.
\<close>

datatype error =
    RuntimeError
  | EnvironmentError env_message
  | MissingDirective string "string list"
  | MissingNamespace string "string list"
  | NotFoundFile string
  | NotFoundUrl string
  | ValueError
  | IndexError
  | TypeError
  | AttributeError
  | IOError

text \<open>\<^verbatim>\<open>s.split(sep)\<close> for a separator of one character: never an empty list.\<close>

fun str_split :: "char \<Rightarrow> string \<Rightarrow> string list" where
  "str_split sep [] = [[]]"
| "str_split sep (c # cs) =
     (if c = sep then [] # str_split sep cs
      else (case str_split sep cs of
              [] \<Rightarrow> [[c]]
            | t # ts \<Rightarrow> (c # t) # ts))"

text \<open>\<^verbatim>\<open>sep.join(xs)\<close>.\<close>

fun str_join :: "string \<Rightarrow> string list \<Rightarrow> string" where
  "str_join sep [] = []"
| "str_join sep [x] = x"
| "str_join sep (x # y # ys) = x @ sep @ str_join sep (y # ys)"

text \<open>
  The slices \<^verbatim>\<open>xs[:-k]\<close> and \<^verbatim>\<open>xs[-k:]\<close>: a list shorter than \<open>k\<close> gives the empty
  list and the whole list. \<^verbatim>\<open>xs[-1]\<close> raises on the empty list.
\<close>

definition slice_until_last :: "nat \<Rightarrow> 'a list \<Rightarrow> 'a list" where
  "slice_until_last k xs = take (length xs - k) xs"

definition slice_from_last :: "nat \<Rightarrow> 'a list \<Rightarrow> 'a list" where
  "slice_from_last k xs = drop (length xs - k) xs"

definition index_last :: "'a list \<Rightarrow> error + 'a" where
  "index_last xs = (case xs of [] \<Rightarrow> Inl IndexError | _ # _ \<Rightarrow> Inr (last xs))"

section \<open>The tag path builder\<close>

text \<open>\<^verbatim>\<open>_get_module_tag(namespace, directive)\<close>, lines 64 to 73.\<close>

definition get_module_tag :: "string \<Rightarrow> string \<Rightarrow> error + (string \<times> string)" where
  "get_module_tag namespace directive =
     (let tokens = str_split CHR ''.'' namespace in
      if directive \<in> {''py:method''} then
        (let base = str_join ''/'' (slice_until_last 2 tokens) in
         Inr (''_modules/'' @ base @ ''.html'', str_join ''.'' (slice_from_last 2 tokens)))
      else
        (let base = str_join ''/'' (slice_until_last 1 tokens) in
         case index_last tokens of
           Inl e \<Rightarrow> Inl e
         | Inr t \<Rightarrow> Inr (''_modules/'' @ base @ ''.html'', t)))"

section \<open>The inventory and the configured roots\<close>

text \<open>
  The intersphinx inventory is a dict of dicts; a record is the 4-tuple
  (project, version, location URI, display text). A dict is finite, so it is a
  \<^typ>\<open>('k, 'v) fmap\<close>.
\<close>

type_synonym inventory_entry = "string \<times> string \<times> string \<times> string"

type_synonym inventory = "(string, (string, inventory_entry) fmap) fmap"

text \<open>
  A value of \<^verbatim>\<open>intersphinx_mapping\<close>: a string (the old format, whose key is the
  target URI), a sequence whose first element is the target URI (the other elements are
  never read), or \<^verbatim>\<open>None\<close> (the old format with the default inventory).
\<close>

datatype mapping_value =
    StrValue string
  | SeqValue "string list"
  | NoneValue

text \<open>
  What the module reads of the Sphinx application: \<^verbatim>\<open>builder.env.intersphinx_inventory\<close>
  and \<^verbatim>\<open>config.intersphinx_mapping.items()\<close>, each \<open>None\<close> when reading the attribute
  raises \<^verbatim>\<open>AttributeError\<close>.
\<close>

record application =
  intersphinx_inventory :: "inventory option"
  intersphinx_mapping :: "(string \<times> mapping_value) list option"

text \<open>\<^verbatim>\<open>_get_app_inventory()\<close>, lines 39 to 45, of the global \<^verbatim>\<open>APPLICATION\<close>.\<close>

definition get_app_inventory :: "application option \<Rightarrow> error + inventory" where
  "get_app_inventory app =
     (case app of
        None \<Rightarrow> Inr fmempty
      | Some a \<Rightarrow>
          (case intersphinx_inventory a of
             None \<Rightarrow> Inl (EnvironmentError NotConfigured)
           | Some cache \<Rightarrow> Inr cache))"

text \<open>The loop of lines 28 to 32 over the items that are left, with the set built so far.\<close>

fun add_roots :: "(string \<times> mapping_value) list \<Rightarrow> string fset \<Rightarrow> error + string fset" where
  "add_roots [] roots = Inr roots"
| "add_roots ((key, SeqValue vs) # mappings) roots =
     (case vs of
        [] \<Rightarrow> Inl IndexError
      | v # _ \<Rightarrow> add_roots mappings (finsert v roots))"
| "add_roots ((key, NoneValue) # mappings) roots = Inl TypeError"
| "add_roots ((key, StrValue s) # mappings) roots = add_roots mappings (finsert key roots)"

text \<open>The body of \<^verbatim>\<open>_get_all_intersphinx_roots()\<close>, lines 21 to 34.\<close>

definition get_all_intersphinx_roots :: "application option \<Rightarrow> error + string fset" where
  "get_all_intersphinx_roots app =
     (case app of
        None \<Rightarrow> Inl (EnvironmentError NotConfigured)
      | Some a \<Rightarrow>
          (case intersphinx_mapping a of
             None \<Rightarrow> Inl (EnvironmentError NotConfigured)
           | Some mappings \<Rightarrow> add_roots mappings {||}))"

text \<open>\<^verbatim>\<open>_get_project_url_root(uri, roots)\<close>, lines 93 to 97; \<open>roots\<close> in iteration order.\<close>

fun get_project_url_root :: "string \<Rightarrow> string list \<Rightarrow> string" where
  "get_project_url_root uri [] = []"
| "get_project_url_root uri (root # roots) =
     (if prefix root uri then root else get_project_url_root uri roots)"

section \<open>The parsed page\<close>

text \<open>
  The tree that \<^verbatim>\<open>bs4.BeautifulSoup(contents, "html.parser")\<close> builds, reduced to
  elements and text. An element has its name, the list that bs4 makes of its \<^verbatim>\<open>class\<close>
  attribute by splitting it at whitespace (empty when the element has none), its other
  attributes, each with its string value, and its children.
\<close>

datatype node =
    NavigableString string
  | Tag string "string list" "(string \<times> string) list" "node list"

text \<open>
  The test of an attribute against a string filter. For \<^verbatim>\<open>class\<close>, bs4 tries each item
  of the list, then the items joined by a space. For an attribute with one value it
  compares the value with the filter, and it lets an absent attribute match a filter that
  is false, which for a string is the empty one.
\<close>

definition class_matches :: "string list \<Rightarrow> string \<Rightarrow> bool" where
  "class_matches classes wanted = (wanted \<in> set classes \<or> str_join '' '' classes = wanted)"

definition attr_matches :: "string option \<Rightarrow> string \<Rightarrow> bool" where
  "attr_matches actual wanted =
     (case actual of
        None \<Rightarrow> wanted = []
      | Some v \<Rightarrow> v = wanted)"

text \<open>The filter of \<^verbatim>\<open>find_all("a", {"class": "viewcode-back"})\<close>, line 138.\<close>

fun is_viewcode_back :: "node \<Rightarrow> bool" where
  "is_viewcode_back (NavigableString s) = False"
| "is_viewcode_back (Tag nm classes attrs children) =
     (nm = ''a'' \<and> class_matches classes ''viewcode-back'')"

text \<open>The filter of \<^verbatim>\<open>find("div", {"id": tag})\<close>, line 141.\<close>

fun is_div_with_id :: "string \<Rightarrow> node \<Rightarrow> bool" where
  "is_div_with_id tag (NavigableString s) = False"
| "is_div_with_id tag (Tag nm classes attrs children) =
     (nm = ''div'' \<and> attr_matches (map_of attrs ''id'') tag)"

text \<open>\<^verbatim>\<open>find_all\<close>: the matching descendants in document order.\<close>

fun find_all :: "(node \<Rightarrow> bool) \<Rightarrow> node list \<Rightarrow> node list" where
  "find_all P [] = []"
| "find_all P (NavigableString s # ns) = find_all P ns"
| "find_all P (Tag nm classes attrs children # ns) =
     (if P (Tag nm classes attrs children) then [Tag nm classes attrs children] else [])
     @ find_all P children @ find_all P ns"

text \<open>\<^verbatim>\<open>find\<close>: the first match, or \<^verbatim>\<open>None\<close>.\<close>

definition soup_find :: "(node \<Rightarrow> bool) \<Rightarrow> node list \<Rightarrow> node option" where
  "soup_find P ns = (case find_all P ns of [] \<Rightarrow> None | n # _ \<Rightarrow> Some n)"

text \<open>
  The tree after \<^verbatim>\<open>decompose()\<close> has been called on every match of \<^verbatim>\<open>find_all\<close>
  (lines 138 and 139): each matching element is gone with all that it contains.
\<close>

fun decompose_all :: "(node \<Rightarrow> bool) \<Rightarrow> node list \<Rightarrow> node list" where
  "decompose_all P [] = []"
| "decompose_all P (NavigableString s # ns) = NavigableString s # decompose_all P ns"
| "decompose_all P (Tag nm classes attrs children # ns) =
     (if P (Tag nm classes attrs children) then decompose_all P ns
      else Tag nm classes attrs (decompose_all P children) # decompose_all P ns)"

text \<open>\<^verbatim>\<open>getText()\<close>: the strings below a node, concatenated in document order.\<close>

fun getText :: "node \<Rightarrow> string" where
  "getText (NavigableString s) = s"
| "getText (Tag nm classes attrs children) = concat (map getText children)"

section \<open>The world of one call\<close>

text \<open>What \<^verbatim>\<open>urllib2.urlopen(uri).read()\<close> can raise.\<close>

datatype url_error =
    URLError
  | HTTPError nat
  | SocketTimeout
  | BadStatusLine
  | UnknownUrlType

text \<open>
  A regular file, as \<^verbatim>\<open>open(uri, "r")\<close> and \<^verbatim>\<open>read()\<close> find it: with its contents, or
  one that the process cannot open or read.
\<close>

datatype regular_file =
    Readable string
  | Unreadable

text \<open>
  Everything outside the module that a call reads. \<open>APPLICATION\<close> is the global of line 15.
  \<open>roots_memo\<close> is the cache of \<^verbatim>\<open>helper.memoize\<close>. \<open>iteration_rank\<close> fixes the order
  in which \<^verbatim>\<open>for root in roots\<close> visits a set: by rank, so that every order of a given
  set is the order of some rank. \<open>files\<close> maps each path where
  \<^verbatim>\<open>os.path.isfile\<close> holds to the regular file there; \<open>urlopen\<close> is \<^verbatim>\<open>urllib2.urlopen(uri).read()\<close>;
  \<open>html_parser\<close> is the parser of bs4.
\<close>

record world =
  APPLICATION :: "application option"
  roots_memo :: "string fset option"
  iteration_rank :: "string \<Rightarrow> nat"
  files :: "string \<rightharpoonup> regular_file"
  urlopen :: "string \<Rightarrow> url_error + string"
  html_parser :: "string \<Rightarrow> node list"

text \<open>
  The sequence in which \<^verbatim>\<open>for root in roots\<close> visits the set: all its members, each
  once, by rank (members of equal rank in sorted order).
\<close>

definition iterate :: "world \<Rightarrow> string fset \<Rightarrow> string list" where
  "iterate w roots = sort_key (iteration_rank w) (sorted_list_of_fset roots)"

text \<open>
  Modelled from the spec: \<^verbatim>\<open>helper.memoize\<close>, the decorator of line 18, is in a module
  that is not among the sources. The root set is "computed at most once, never
  invalidated": a cached set is returned as it is, and a computed one is cached. A call
  that raises caches nothing. The second component is the cache after the call.
\<close>

definition memoized_roots :: "world \<Rightarrow> (error + string fset) \<times> string fset option" where
  "memoized_roots w =
     (case roots_memo w of
        Some roots \<Rightarrow> (Inr roots, Some roots)
      | None \<Rightarrow>
          (case get_all_intersphinx_roots (APPLICATION w) of
             Inl e \<Rightarrow> (Inl e, None)
           | Inr roots \<Rightarrow> (Inr roots, Some roots)))"

section \<open>Fetching and extracting\<close>

text \<open>\<^verbatim>\<open>os.path.isabs\<close> of \<^verbatim>\<open>posixpath\<close>.\<close>

definition isabs :: "string \<Rightarrow> bool" where
  "isabs s = (case s of [] \<Rightarrow> False | c # _ \<Rightarrow> c = CHR ''/'')"

text \<open>
  Lines 124 to 134 of \<^verbatim>\<open>_get_source_code\<close>: the contents of the page. The test of
  line 125 is \<^verbatim>\<open>os.path.isfile\<close>; lines 128 and 129 open and read the file with no
  handler around them.
\<close>

definition fetch_contents :: "world \<Rightarrow> string \<Rightarrow> error + string" where
  "fetch_contents w uri =
     (if isabs uri then
        (case files w uri of
           None \<Rightarrow> Inl (NotFoundFile uri)
         | Some file \<Rightarrow>
             (case file of
                Unreadable \<Rightarrow> Inl IOError
              | Readable contents \<Rightarrow> Inr contents))
      else
        (case urlopen w uri of
           Inl exc \<Rightarrow> Inl (NotFoundUrl uri)
         | Inr contents \<Rightarrow> Inr contents))"

text \<open>Lines 138 to 143 of \<^verbatim>\<open>_get_source_code\<close>, on the parsed page.\<close>

definition extract_source :: "node list \<Rightarrow> string \<Rightarrow> error + string" where
  "extract_source soup tag =
     (let pruned = decompose_all is_viewcode_back soup in
      case soup_find (is_div_with_id tag) pruned of
        None \<Rightarrow> Inl AttributeError
      | Some node \<Rightarrow> Inr (getText node))"

text \<open>\<^verbatim>\<open>_get_source_code(uri, tag)\<close>, lines 124 to 143.\<close>

definition private_get_source_code :: "world \<Rightarrow> string \<Rightarrow> string \<Rightarrow> error + string" where
  "private_get_source_code w uri tag =
     (case fetch_contents w uri of
        Inl e \<Rightarrow> Inl e
      | Inr contents \<Rightarrow> extract_source (html_parser w contents) tag)"

section \<open>The pipeline\<close>

text \<open>Lines 175 to 198 of \<^verbatim>\<open>get_source_code\<close>: the location URI of the symbol.\<close>

definition lookup_uri :: "application option \<Rightarrow> string \<Rightarrow> string \<Rightarrow> error + string" where
  "lookup_uri app directive namespace =
     (case get_app_inventory app of
        Inl e \<Rightarrow> Inl e
      | Inr cache \<Rightarrow>
          if cache = fmempty then Inl RuntimeError
          else
            (case fmlookup cache directive of
               None \<Rightarrow> Inl (MissingDirective directive (sorted_list_of_fset (fmdom cache)))
             | Some typed_directive_data \<Rightarrow>
                 (case fmlookup typed_directive_data namespace of
                    None \<Rightarrow>
                      Inl (MissingNamespace namespace
                             (sorted_list_of_fset (fmdom typed_directive_data)))
                  | Some (project, version, uri, display) \<Rightarrow> Inr uri)))"

text \<open>
  Lines 201 to 214 of \<^verbatim>\<open>get_source_code\<close>, with the two halves of the URI. The
  result comes with the cache of the root set after the call.
\<close>

definition locate_and_extract ::
  "world \<Rightarrow> string \<Rightarrow> string \<Rightarrow> string \<Rightarrow> (error + string) \<times> string fset option" where
  "locate_and_extract w directive url tag =
     (case memoized_roots w of
        (Inl e, memo) \<Rightarrow> (Inl e, memo)
      | (Inr available_roots, memo) \<Rightarrow>
          (let root = get_project_url_root url (iterate w available_roots) in
           if root = [] then
             (Inl (EnvironmentError
                     (UrlNotInProjects url (sorted_list_of_fset available_roots))), memo)
           else
             (case get_module_tag tag directive of
                Inl e \<Rightarrow> (Inl e, memo)
              | Inr (module_path, tag') \<Rightarrow>
                  (private_get_source_code w (root @ ''/'' @ module_path) tag', memo))))"

text \<open>\<^verbatim>\<open>get_source_code(directive, namespace)\<close>, lines 175 to 214.\<close>

definition get_source_code ::
  "world \<Rightarrow> string \<Rightarrow> string \<Rightarrow> (error + string) \<times> string fset option" where
  "get_source_code w directive namespace =
     (case lookup_uri (APPLICATION w) directive namespace of
        Inl e \<Rightarrow> (Inl e, roots_memo w)
      | Inr uri \<Rightarrow>
          (case str_split CHR ''#'' uri of
             [url, tag] \<Rightarrow> locate_and_extract w directive url tag
           | _ \<Rightarrow> (Inl ValueError, roots_memo w)))"

section \<open>The extraction, said in one pass over the page\<close>

text \<open>
  What the extraction is meant to give, said on the page as it was fetched and without the
  two steps of the code. A back link is an \<^verbatim>\<open>a\<close> element that has \<^verbatim>\<open>viewcode-back\<close>
  among its classes. The text of a node outside back links is its text with the back
  links, and all they contain, left out.
\<close>

fun text_outside_back_links :: "node \<Rightarrow> string" where
  "text_outside_back_links (NavigableString s) = s"
| "text_outside_back_links (Tag nm classes attrs children) =
     (if nm = ''a'' \<and> ''viewcode-back'' \<in> set classes then []
      else concat (map text_outside_back_links children))"

text \<open>
  The first \<^verbatim>\<open>div\<close> element, in document order and not inside a back link, whose
  \<^verbatim>\<open>id\<close> is the anchor; for the empty anchor, a \<^verbatim>\<open>div\<close> with no \<^verbatim>\<open>id\<close> counts too.
\<close>

fun first_div_outside_back_links :: "string \<Rightarrow> node list \<Rightarrow> node option" where
  "first_div_outside_back_links anchor [] = None"
| "first_div_outside_back_links anchor (NavigableString s # ns) =
     first_div_outside_back_links anchor ns"
| "first_div_outside_back_links anchor (Tag nm classes attrs children # ns) =
     (if nm = ''a'' \<and> ''viewcode-back'' \<in> set classes then
        first_div_outside_back_links anchor ns
      else if nm = ''div'' \<and> (map_of attrs ''id'' = Some anchor
                               \<or> anchor = [] \<and> map_of attrs ''id'' = None) then
        Some (Tag nm classes attrs children)
      else
        (case first_div_outside_back_links anchor children of
           Some node \<Rightarrow> Some node
         | None \<Rightarrow> first_div_outside_back_links anchor ns))"

section \<open>A small documentation tree\<close>

text \<open>
  One project \<^verbatim>\<open>proj\<close> built under \<^verbatim>\<open>/docs\<close>, a second one configured in the old
  format, an inventory of three symbols (the last one recorded outside every root), and
  the page of the module as bs4 parses it: the block of a method, with the link back to
  the documentation that Sphinx puts in front of the code. A second page of the tree is
  a file that cannot be read.
\<close>

definition example_inventory :: inventory where
  "example_inventory = fmap_of_list
     [(''py:method'', fmap_of_list
         [(''pkg.mod.Cls.meth'',
           (''proj'', ''1.0'', ''/docs/api/pkg.html#pkg.mod.Cls.meth'', ''-''))]),
      (''py:function'', fmap_of_list
         [(''pkg.mod.func'',
           (''proj'', ''1.0'', ''/docs/api/pkg.html#pkg.mod.func'', ''-'')),
          (''pkg.mod.aux'',
           (''proj'', ''1.0'', ''/elsewhere/api.html#pkg.mod.aux'', ''-''))])]"

definition example_page :: "node list" where
  "example_page =
     [Tag ''div'' [''viewcode-block''] [(''id'', ''Cls.meth'')]
        [Tag ''a'' [''viewcode-back''] [(''href'', ''../api.html'')]
           [NavigableString ''[docs]''],
         NavigableString ''def meth(self): pass'']]"

definition example_world :: world where
  "example_world =
     \<lparr>APPLICATION = Some
        \<lparr>intersphinx_inventory = Some example_inventory,
         intersphinx_mapping = Some
           [(''proj'', SeqValue [''/docs'', ''objects.inv'']),
            (''https://lib.example.org'', StrValue ''lib.inv'')]\<rparr>,
      roots_memo = None,
      iteration_rank = length,
      files = [''/docs/_modules/pkg/mod.html'' \<mapsto> Readable ''<html>'',
               ''/docs/_modules/pkg/locked.html'' \<mapsto> Unreadable],
      urlopen = (\<lambda>uri. Inl URLError),
      html_parser = (\<lambda>contents. example_page)\<rparr>"

section \<open>Splitting and joining\<close>

lemma str_split_not_Nil: "str_split sep s \<noteq> []"
  by (induction s) (auto split: list.splits)

lemma str_split_no_sep: "sep \<notin> set s \<Longrightarrow> str_split sep s = [s]"
  by (induction s) auto

lemma str_split_append_sep:
  "sep \<notin> set t \<Longrightarrow> str_split sep (t @ sep # rest) = t # str_split sep rest"
  by (induction t) auto

lemma str_split_join:
  "tokens \<noteq> [] \<Longrightarrow> \<forall>t \<in> set tokens. sep \<notin> set t \<Longrightarrow>
   str_split sep (str_join [sep] tokens) = tokens"
proof (induction "[sep]" tokens rule: str_join.induct)
  case 1
  then show ?case by simp
next
  case (2 x)
  then show ?case by (simp add: str_split_no_sep)
next
  case (3 x y ys)
  then show ?case by (simp add: str_split_append_sep)
qed

lemma str_join_split: "str_join [sep] (str_split sep s) = s"
proof (induction s)
  case Nil
  then show ?case by simp
next
  case (Cons c cs)
  show ?case
  proof (cases "c = sep")
    case True
    with Cons show ?thesis
      by (cases "str_split sep cs") (auto simp: str_split_not_Nil)
  next
    case False
    obtain t ts where ts: "str_split sep cs = t # ts"
      by (cases "str_split sep cs") (auto simp: str_split_not_Nil)
    with Cons have "str_join [sep] (t # ts) = cs" by simp
    then have "str_join [sep] ((c # t) # ts) = c # cs"
      by (cases ts) auto
    with False ts show ?thesis by simp
  qed
qed

lemma slice_until_last_1: "slice_until_last 1 xs = butlast xs"
  by (simp add: slice_until_last_def butlast_conv_take)

lemma slice_until_last_2: "slice_until_last 2 xs = butlast (butlast xs)"
  by (simp add: slice_until_last_def butlast_conv_take numeral_2_eq_2)

lemma slice_from_last_2_snoc: "slice_from_last 2 (pre @ [c, m]) = [c, m]"
  by (simp add: slice_from_last_def)

lemma index_last_str_split: "index_last (str_split sep s) = Inr (last (str_split sep s))"
  by (cases "str_split sep s") (auto simp: index_last_def str_split_not_Nil)

section \<open>The tag path builder: what it returns\<close>

lemma get_module_tag_tokens:
  assumes "tokens \<noteq> []" and "\<forall>t \<in> set tokens. CHR ''.'' \<notin> set t"
  shows "get_module_tag (str_join ''.'' tokens) directive =
     (if directive = ''py:method''
      then Inr (''_modules/'' @ str_join ''/'' (butlast (butlast tokens)) @ ''.html'',
                str_join ''.'' (drop (length tokens - 2) tokens))
      else Inr (''_modules/'' @ str_join ''/'' (butlast tokens) @ ''.html'', last tokens))"
proof -
  have sp: "str_split CHR ''.'' (str_join ''.'' tokens) = tokens"
    using assms by (rule str_split_join)
  have il: "index_last tokens = Inr (last tokens)"
    using assms(1) by (cases tokens) (auto simp: index_last_def)
  show ?thesis
    unfolding get_module_tag_def Let_def sp slice_until_last_1 slice_until_last_2
      slice_from_last_def
    by (simp add: il)
qed

text \<open>
  Claim C2. The anchor tokens are the dot-split of the anchor, so a token list is not
  empty and no token holds a dot; the builder receives the tokens joined by dots. Under
  the method tag \<^verbatim>\<open>py:method\<close> it returns the page path made of all tokens but the last
  two, joined by \<open>/\<close>, after \<^verbatim>\<open>_modules/\<close> and before \<^verbatim>\<open>.html\<close>, with the last two
  tokens joined by a dot; under every other tag the path is made of all tokens but the
  last and comes with the last token. The tokens pkg, mod, Cls, meth under the method tag
  give \<^verbatim>\<open>_modules/pkg/mod.html\<close> and \<^verbatim>\<open>Cls.meth\<close>; pkg, mod, func under the function tag
  give \<^verbatim>\<open>_modules/pkg/mod.html\<close> and \<^verbatim>\<open>func\<close>.
\<close>

theorem buildPath_of_tokens:
  assumes "tokens \<noteq> []" and "\<forall>t \<in> set tokens. CHR ''.'' \<notin> set t"
  shows "get_module_tag (str_join ''.'' tokens) directive =
           (if directive = ''py:method''
            then Inr (''_modules/'' @ str_join ''/'' (butlast (butlast tokens)) @ ''.html'',
                      str_join ''.'' (drop (length tokens - 2) tokens))
            else Inr (''_modules/'' @ str_join ''/'' (butlast tokens) @ ''.html'',
                      last tokens))
         \<and> get_module_tag ''pkg.mod.Cls.meth'' ''py:method''
             = Inr (''_modules/pkg/mod.html'', ''Cls.meth'')
         \<and> get_module_tag ''pkg.mod.func'' ''py:function''
             = Inr (''_modules/pkg/mod.html'', ''func'')"
proof (intro conjI)
  show "get_module_tag (str_join ''.'' tokens) directive =
           (if directive = ''py:method''
            then Inr (''_modules/'' @ str_join ''/'' (butlast (butlast tokens)) @ ''.html'',
                      str_join ''.'' (drop (length tokens - 2) tokens))
            else Inr (''_modules/'' @ str_join ''/'' (butlast tokens) @ ''.html'',
                      last tokens))"
    using assms by (rule get_module_tag_tokens)
next
  have "get_module_tag (str_join ''.'' [''pkg'', ''mod'', ''Cls'', ''meth'']) ''py:method''
          = Inr (''_modules/pkg/mod.html'', ''Cls.meth'')"
    by (subst get_module_tag_tokens) simp_all
  then show "get_module_tag ''pkg.mod.Cls.meth'' ''py:method''
               = Inr (''_modules/pkg/mod.html'', ''Cls.meth'')"
    by simp
next
  have "get_module_tag (str_join ''.'' [''pkg'', ''mod'', ''func'']) ''py:function''
          = Inr (''_modules/pkg/mod.html'', ''func'')"
    by (subst get_module_tag_tokens) simp_all
  then show "get_module_tag ''pkg.mod.func'' ''py:function''
               = Inr (''_modules/pkg/mod.html'', ''func'')"
    by simp
qed

theorem buildPath_of_tokens_witness:
  "[''docs'', ''api'', ''Widget'', ''draw''] \<noteq> []
   \<and> CHR ''.'' \<notin> set ''docs'' \<and> CHR ''.'' \<notin> set ''api''
   \<and> CHR ''.'' \<notin> set ''Widget'' \<and> CHR ''.'' \<notin> set ''draw''
   \<and> get_module_tag ''docs.api.Widget.draw'' ''py:method''
       = Inr (''_modules/docs/api.html'', ''Widget.draw'')
   \<and> get_module_tag ''docs.api.Widget.draw'' ''py:class''
       = Inr (''_modules/docs/api/Widget.html'', ''draw'')"
proof -
  have h1: "[''docs'', ''api'', ''Widget'', ''draw''] \<noteq> []" by simp
  have h2: "\<forall>t \<in> set [''docs'', ''api'', ''Widget'', ''draw'']. CHR ''.'' \<notin> set t" by simp
  show ?thesis
    using h1 h2 buildPath_of_tokens [OF h1 h2, of "''py:method''"]
      buildPath_of_tokens [OF h1 h2, of "''py:class''"]
    by simp
qed

text \<open>
  Claim C9. The builder is a function of the role tag and the anchor alone, and it
  returns a pair for every role tag and every anchor string: it never raises. An anchor
  of fewer than two tokens under the method tag gives the path \<^verbatim>\<open>_modules/.html\<close>, whose
  module part is empty, with the whole anchor as the tag.
\<close>

theorem tag_path_builder_total:
  "(\<forall>anchor directive. \<exists>path tag. get_module_tag anchor directive = Inr (path, tag))
   \<and> (\<forall>anchor. length (str_split CHR ''.'' anchor) < 2 \<longrightarrow>
        get_module_tag anchor ''py:method'' = Inr (''_modules/.html'', anchor))"
proof (intro conjI allI impI)
  fix anchor directive
  show "\<exists>path tag. get_module_tag anchor directive = Inr (path, tag)"
    by (simp add: get_module_tag_def index_last_str_split Let_def)
next
  fix anchor
  assume "length (str_split CHR ''.'' anchor) < 2"
  then obtain t where t: "str_split CHR ''.'' anchor = [t]"
    by (cases "str_split CHR ''.'' anchor" rule: list.exhaust;
        cases "tl (str_split CHR ''.'' anchor)")
       (auto simp: str_split_not_Nil)
  have "str_join ''.'' (str_split CHR ''.'' anchor) = anchor"
    by (rule str_join_split)
  with t have "t = anchor" by simp
  with t show "get_module_tag anchor ''py:method'' = Inr (''_modules/.html'', anchor)"
    by (simp add: get_module_tag_def slice_until_last_def slice_from_last_def)
qed

theorem tag_path_builder_total_witness:
  "length (str_split CHR ''.'' ''render'') < 2
   \<and> get_module_tag ''render'' ''py:method'' = Inr (''_modules/.html'', ''render'')"
proof -
  have h: "length (str_split CHR ''.'' ''render'') < 2" by simp
  show ?thesis
    using h tag_path_builder_total [THEN conjunct2, rule_format, OF h] by simp
qed

section \<open>Facts about the model\<close>

lemma length_str_split: "length (str_split sep s) = Suc (count_list s sep)"
  by (induction s) (auto split: list.splits simp: str_split_not_Nil)

lemma str_split_tokens_no_sep: "t \<in> set (str_split sep s) \<Longrightarrow> sep \<notin> set t"
  by (induction s arbitrary: t) (auto split: list.splits if_splits)

lemma str_split_one_sep:
  assumes "count_list uri sep = 1"
  shows "\<exists>base anchor. str_split sep uri = [base, anchor] \<and> uri = base @ sep # anchor
           \<and> sep \<notin> set base \<and> sep \<notin> set anchor"
proof -
  have "length (str_split sep uri) = 2"
    using assms by (simp add: length_str_split)
  then obtain base anchor where sp: "str_split sep uri = [base, anchor]"
    by (cases "str_split sep uri"; cases "tl (str_split sep uri)") auto
  have "str_join [sep] (str_split sep uri) = uri"
    by (rule str_join_split)
  with sp have "uri = base @ sep # anchor" by simp
  moreover have "sep \<notin> set base" "sep \<notin> set anchor"
    using str_split_tokens_no_sep [of base sep uri] str_split_tokens_no_sep [of anchor sep uri] sp
    by simp_all
  ultimately show ?thesis using sp by blast
qed

lemma sorted_list_of_fset_sorted: "sorted (sorted_list_of_fset S)"
  by (simp add: sorted_list_of_fset.rep_eq)

lemma sorted_list_of_fset_distinct: "distinct (sorted_list_of_fset S)"
  by (simp add: sorted_list_of_fset.rep_eq)

lemma set_iterate: "set (iterate w roots) = fset roots"
  by (simp add: iterate_def)

lemma add_roots_no_ValueError: "add_roots ms acc \<noteq> Inl ValueError"
  by (induction ms acc rule: add_roots.induct) (auto split: list.splits)

lemma memoized_roots_no_ValueError: "fst (memoized_roots w) \<noteq> Inl ValueError"
  by (auto simp: memoized_roots_def get_all_intersphinx_roots_def add_roots_no_ValueError
      split: option.splits sum.splits)

lemma extract_source_cases:
  "extract_source soup tag = Inl AttributeError \<or> (\<exists>s. extract_source soup tag = Inr s)"
  by (auto simp: extract_source_def Let_def split: option.splits)

lemma extract_source_no_ValueError: "extract_source soup tag \<noteq> Inl ValueError"
  using extract_source_cases [of soup tag] by auto


lemma private_get_source_code_no_ValueError:
  "private_get_source_code w uri tag \<noteq> Inl ValueError"
  by (auto simp: private_get_source_code_def fetch_contents_def extract_source_no_ValueError
      split: sum.splits option.splits regular_file.splits if_splits)

lemma get_module_tag_Inr: "\<exists>p t. get_module_tag a d = Inr (p, t)"
  by (simp add: get_module_tag_def index_last_str_split Let_def)

lemma locate_and_extract_no_ValueError: "fst (locate_and_extract w d u t) \<noteq> Inl ValueError"
proof -
  obtain p t' where g: "get_module_tag t d = Inr (p, t')"
    using get_module_tag_Inr by blast
  show ?thesis
    using memoized_roots_no_ValueError [of w] private_get_source_code_no_ValueError
    by (cases "memoized_roots w") (auto simp: locate_and_extract_def g Let_def split: sum.splits)
qed

lemma example_inventory_not_empty: "example_inventory \<noteq> fmempty"
proof
  assume "example_inventory = fmempty"
  then have "fmlookup example_inventory ''py:method'' = None" by simp
  then show False by (simp add: example_inventory_def fmlookup_of_list)
qed

lemma example_app_inventory:
  "get_app_inventory (APPLICATION example_world) = Inr example_inventory"
  by (simp add: example_world_def get_app_inventory_def)

lemma example_memoized_roots:
  "memoized_roots example_world
     = (Inr {|''/docs'', ''https://lib.example.org''|}, Some {|''/docs'', ''https://lib.example.org''|})"
  by (auto simp: memoized_roots_def example_world_def get_all_intersphinx_roots_def)

section \<open>The lookup stage\<close>

text \<open>
  Claim C1, as the code has it. When the inventory is not empty: a role tag and a symbol
  that the inventory holds give the location URI of the stored record, its third
  component; a role tag that is not a key of the inventory raises
  \<^verbatim>\<open>MissingDirective\<close> with the sorted list of all role tags of the inventory; a role
  tag that is a key whose symbols do not include the requested one raises
  \<^verbatim>\<open>MissingNamespace\<close> with the sorted list of all symbols under that role tag. The
  two exceptions are different constructors, so one never stands for the other, and each
  leaves \<^verbatim>\<open>get_source_code\<close> as it is raised.
\<close>

theorem lookup_in_nonempty_inventory:
  assumes "get_app_inventory (APPLICATION w) = Inr cache" and "cache \<noteq> fmempty"
  shows "(\<forall>m project version uri display.
            fmlookup cache directive = Some m
            \<and> fmlookup m namespace = Some (project, version, uri, display) \<longrightarrow>
            lookup_uri (APPLICATION w) directive namespace = Inr uri)
       \<and> (directive |\<notin>| fmdom cache \<longrightarrow>
            (\<exists>options. lookup_uri (APPLICATION w) directive namespace
                         = Inl (MissingDirective directive options)
                \<and> get_source_code w directive namespace
                         = (Inl (MissingDirective directive options), roots_memo w)
                \<and> sorted options \<and> distinct options \<and> set options = fset (fmdom cache)))
       \<and> (\<forall>m. fmlookup cache directive = Some m \<and> namespace |\<notin>| fmdom m \<longrightarrow>
            (\<exists>options. lookup_uri (APPLICATION w) directive namespace
                         = Inl (MissingNamespace namespace options)
                \<and> get_source_code w directive namespace
                         = (Inl (MissingNamespace namespace options), roots_memo w)
                \<and> sorted options \<and> distinct options \<and> set options = fset (fmdom m)))"
  using assms
  by (auto simp: lookup_uri_def get_source_code_def fmdom_notD sorted_list_of_fset_sorted
      sorted_list_of_fset_distinct)

theorem lookup_in_nonempty_inventory_witness:
  "get_app_inventory (APPLICATION example_world) = Inr example_inventory
   \<and> example_inventory \<noteq> fmempty
   \<and> lookup_uri (APPLICATION example_world) ''py:method'' ''pkg.mod.Cls.meth''
       = Inr ''/docs/api/pkg.html#pkg.mod.Cls.meth''
   \<and> lookup_uri (APPLICATION example_world) ''py:class'' ''pkg.mod.Cls''
       = Inl (MissingDirective ''py:class'' [''py:function'', ''py:method''])
   \<and> lookup_uri (APPLICATION example_world) ''py:function'' ''pkg.mod.gone''
       = Inl (MissingNamespace ''pkg.mod.gone'' [''pkg.mod.aux'', ''pkg.mod.func''])"
proof -
  note h = example_app_inventory example_inventory_not_empty
  have present: "fmlookup example_inventory ''py:method''
      = Some (fmap_of_list [(''pkg.mod.Cls.meth'',
           (''proj'', ''1.0'', ''/docs/api/pkg.html#pkg.mod.Cls.meth'', ''-''))])"
    by (simp add: example_inventory_def fmlookup_of_list)
  have entry: "fmlookup (fmap_of_list [(''pkg.mod.Cls.meth'',
           (''proj'', ''1.0'', ''/docs/api/pkg.html#pkg.mod.Cls.meth'', ''-''))]) ''pkg.mod.Cls.meth''
      = Some (''proj'', ''1.0'', ''/docs/api/pkg.html#pkg.mod.Cls.meth'', ''-'')"
    by (simp add: fmlookup_of_list)
  have a: "lookup_uri (APPLICATION example_world) ''py:method'' ''pkg.mod.Cls.meth''
       = Inr ''/docs/api/pkg.html#pkg.mod.Cls.meth''"
    using lookup_in_nonempty_inventory [OF h, of "''py:method''" "''pkg.mod.Cls.meth''",
        THEN conjunct1] present entry
    by blast
  have "''py:class'' |\<notin>| fmdom example_inventory"
    by (simp add: example_inventory_def)
  then obtain options where o: "lookup_uri (APPLICATION example_world) ''py:class'' ''pkg.mod.Cls''
       = Inl (MissingDirective ''py:class'' options)"
    "sorted options" "distinct options" "set options = fset (fmdom example_inventory)"
    using lookup_in_nonempty_inventory [OF h, of "''py:class''" "''pkg.mod.Cls''",
        THEN conjunct2, THEN conjunct1]
    by blast
  have "options = sorted_list_of_fset (fmdom example_inventory)"
    using o(1) h by (simp add: lookup_uri_def example_inventory_def fmlookup_of_list)
  then have b: "lookup_uri (APPLICATION example_world) ''py:class'' ''pkg.mod.Cls''
       = Inl (MissingDirective ''py:class'' [''py:function'', ''py:method''])"
    using o(1) by (simp add: example_inventory_def sorted_list_of_fset.rep_eq fset_of_list.rep_eq)
  have c: "lookup_uri (APPLICATION example_world) ''py:function'' ''pkg.mod.gone''
       = Inl (MissingNamespace ''pkg.mod.gone'' [''pkg.mod.aux'', ''pkg.mod.func''])"
    using h by (simp add: lookup_uri_def example_inventory_def fmlookup_of_list
        sorted_list_of_fset.rep_eq fset_of_list.rep_eq)
  show ?thesis using h a b c by simp
qed

text \<open>
  Claim C1 as it is stated fails on the empty inventory: no pair is in it, and the lookup
  stage raises the \<^verbatim>\<open>RuntimeError\<close> of line 178, which is neither
  \<^verbatim>\<open>MissingDirective\<close> nor \<^verbatim>\<open>MissingNamespace\<close>.
\<close>

theorem lookup_in_empty_inventory_counterexample:
  "fmlookup (fmempty :: inventory) ''py:function'' = None
   \<and> lookup_uri (Some \<lparr>intersphinx_inventory = Some fmempty, intersphinx_mapping = Some []\<rparr>)
        ''py:function'' ''pkg.mod.func'' = Inl RuntimeError
   \<and> lookup_uri (Some \<lparr>intersphinx_inventory = Some fmempty, intersphinx_mapping = Some []\<rparr>)
        ''py:function'' ''pkg.mod.func'' \<noteq> Inl (MissingDirective ''py:function'' [])"
  by (simp add: lookup_uri_def get_app_inventory_def)

text \<open>
  Claim C7. When there is no inventory to read, \<^verbatim>\<open>get_source_code\<close> fails with an
  exception of the configuration kind, whatever the role tag and the symbol: the
  \<^verbatim>\<open>RuntimeError\<close> of line 178 when no application was set, the \<^verbatim>\<open>EnvironmentError\<close> of
  line 45 when the application has no inventory attribute, and the \<^verbatim>\<open>RuntimeError\<close>
  again when the inventory is there and empty. The result names neither the role tag nor
  the symbol, and the cache of the root set is as it was: nothing was looked up.
\<close>

theorem no_inventory_is_configuration_error:
  "(APPLICATION w = None \<longrightarrow>
      get_source_code w directive namespace = (Inl RuntimeError, roots_memo w))
   \<and> (\<forall>a. APPLICATION w = Some a \<and> intersphinx_inventory a = None \<longrightarrow>
      get_source_code w directive namespace
        = (Inl (EnvironmentError NotConfigured), roots_memo w))
   \<and> (\<forall>a. APPLICATION w = Some a \<and> intersphinx_inventory a = Some fmempty \<longrightarrow>
      get_source_code w directive namespace = (Inl RuntimeError, roots_memo w))"
  by (simp add: get_source_code_def lookup_uri_def get_app_inventory_def)

theorem no_inventory_is_configuration_error_witness:
  "APPLICATION (example_world\<lparr>APPLICATION := None\<rparr>) = None
   \<and> get_source_code (example_world\<lparr>APPLICATION := None\<rparr>) ''py:method'' ''pkg.mod.Cls.meth''
       = (Inl RuntimeError, None)
   \<and> get_source_code
        (example_world\<lparr>APPLICATION :=
           Some \<lparr>intersphinx_inventory = None, intersphinx_mapping = None\<rparr>\<rparr>)
        ''py:method'' ''pkg.mod.Cls.meth''
       = (Inl (EnvironmentError NotConfigured), None)"
proof -
  have h1: "APPLICATION (example_world\<lparr>APPLICATION := None\<rparr>) = None" by simp
  have h2: "APPLICATION (example_world\<lparr>APPLICATION :=
           Some \<lparr>intersphinx_inventory = None, intersphinx_mapping = None\<rparr>\<rparr>)
        = Some \<lparr>intersphinx_inventory = None, intersphinx_mapping = None\<rparr>
      \<and> intersphinx_inventory \<lparr>intersphinx_inventory = None, intersphinx_mapping = None\<rparr> = None"
    by simp
  have m: "roots_memo example_world = None" by (simp add: example_world_def)
  show ?thesis
    using h1 m
      no_inventory_is_configuration_error [of "example_world\<lparr>APPLICATION := None\<rparr>"
        "''py:method''" "''pkg.mod.Cls.meth''", THEN conjunct1, rule_format, OF h1]
      no_inventory_is_configuration_error [of "example_world\<lparr>APPLICATION :=
           Some \<lparr>intersphinx_inventory = None, intersphinx_mapping = None\<rparr>\<rparr>"
        "''py:method''" "''pkg.mod.Cls.meth''", THEN conjunct2, THEN conjunct1, rule_format, OF h2]
    by simp
qed

section \<open>The two halves of the location URI\<close>

lemma get_module_tag_of_anchor:
  "get_module_tag anchor directive =
     (let tokens = str_split CHR ''.'' anchor in
      if directive = ''py:method''
      then Inr (''_modules/'' @ str_join ''/'' (butlast (butlast tokens)) @ ''.html'',
                str_join ''.'' (drop (length tokens - 2) tokens))
      else Inr (''_modules/'' @ str_join ''/'' (butlast tokens) @ ''.html'', last tokens))"
  unfolding get_module_tag_def Let_def slice_until_last_1 slice_until_last_2 slice_from_last_def
  by (simp add: index_last_str_split)

text \<open>
  Claim C8. A location URI with exactly one \<open>#\<close> is the base, the separator and the
  anchor, with no separator in either half, and the unpacking of line 200 gives these two
  halves: no \<^verbatim>\<open>ValueError\<close> leaves the pipeline. The base is what the root resolution
  searches the roots for, and what the error of line 205 reports when no root matches.
  The anchor is split at its dots, and the tokens build the page that is fetched under
  the root and the tag that is searched in it: all tokens but the last two and the last
  two for a method, all tokens but the last and the last one otherwise. A failure to
  compute the root set leaves the pipeline as it is.
\<close>

theorem split_location_uri:
  assumes "lookup_uri (APPLICATION w) directive namespace = Inr uri"
    and "count_list uri CHR ''#'' = 1"
  shows "\<exists>base anchor.
           uri = base @ CHR ''#'' # anchor \<and> CHR ''#'' \<notin> set base \<and> CHR ''#'' \<notin> set anchor
           \<and> str_split CHR ''#'' uri = [base, anchor]
           \<and> fst (get_source_code w directive namespace) \<noteq> Inl ValueError
           \<and> (\<forall>e memo. memoized_roots w = (Inl e, memo) \<longrightarrow>
                 get_source_code w directive namespace = (Inl e, memo))
           \<and> (\<forall>roots memo. memoized_roots w = (Inr roots, memo) \<longrightarrow>
                 get_source_code w directive namespace =
                   (let root = get_project_url_root base (iterate w roots);
                        tokens = str_split CHR ''.'' anchor
                    in if root = [] then
                         (Inl (EnvironmentError
                                 (UrlNotInProjects base (sorted_list_of_fset roots))), memo)
                       else if directive = ''py:method'' then
                         (private_get_source_code w
                            (root @ ''/_modules/'' @ str_join ''/'' (butlast (butlast tokens))
                               @ ''.html'')
                            (str_join ''.'' (drop (length tokens - 2) tokens)), memo)
                       else
                         (private_get_source_code w
                            (root @ ''/_modules/'' @ str_join ''/'' (butlast tokens) @ ''.html'')
                            (last tokens), memo)))"
proof -
  obtain base anchor where sp: "str_split CHR ''#'' uri = [base, anchor]"
    and u: "uri = base @ CHR ''#'' # anchor" and nb: "CHR ''#'' \<notin> set base"
    and na: "CHR ''#'' \<notin> set anchor"
    using str_split_one_sep [OF assms(2)] by blast
  have g: "get_source_code w directive namespace = locate_and_extract w directive base anchor"
    by (simp add: get_source_code_def assms(1) sp)
  have v: "fst (get_source_code w directive namespace) \<noteq> Inl ValueError"
    using g locate_and_extract_no_ValueError [of w directive base anchor] by simp
  have e: "\<forall>e memo. memoized_roots w = (Inl e, memo) \<longrightarrow>
                 get_source_code w directive namespace = (Inl e, memo)"
    by (simp add: g locate_and_extract_def)
  have r: "\<forall>roots memo. memoized_roots w = (Inr roots, memo) \<longrightarrow>
                 get_source_code w directive namespace =
                   (let root = get_project_url_root base (iterate w roots);
                        tokens = str_split CHR ''.'' anchor
                    in if root = [] then
                         (Inl (EnvironmentError
                                 (UrlNotInProjects base (sorted_list_of_fset roots))), memo)
                       else if directive = ''py:method'' then
                         (private_get_source_code w
                            (root @ ''/_modules/'' @ str_join ''/'' (butlast (butlast tokens))
                               @ ''.html'')
                            (str_join ''.'' (drop (length tokens - 2) tokens)), memo)
                       else
                         (private_get_source_code w
                            (root @ ''/_modules/'' @ str_join ''/'' (butlast tokens) @ ''.html'')
                            (last tokens), memo))"
    by (simp add: g locate_and_extract_def get_module_tag_of_anchor Let_def)
  show ?thesis
    using sp u nb na v e r by blast
qed

theorem split_location_uri_witness:
  "lookup_uri (APPLICATION example_world) ''py:method'' ''pkg.mod.Cls.meth''
     = Inr ''/docs/api/pkg.html#pkg.mod.Cls.meth''
   \<and> count_list ''/docs/api/pkg.html#pkg.mod.Cls.meth'' CHR ''#'' = 1
   \<and> str_split CHR ''#'' ''/docs/api/pkg.html#pkg.mod.Cls.meth''
       = [''/docs/api/pkg.html'', ''pkg.mod.Cls.meth'']
   \<and> get_source_code example_world ''py:method'' ''pkg.mod.Cls.meth''
       = (private_get_source_code example_world ''/docs/_modules/pkg/mod.html'' ''Cls.meth'',
          Some {|''/docs'', ''https://lib.example.org''|})
   \<and> get_source_code example_world ''py:method'' ''pkg.mod.Cls.meth''
       = (Inr ''def meth(self): pass'', Some {|''/docs'', ''https://lib.example.org''|})"
proof -
  have h1: "lookup_uri (APPLICATION example_world) ''py:method'' ''pkg.mod.Cls.meth''
     = Inr ''/docs/api/pkg.html#pkg.mod.Cls.meth''"
    by (simp add: lookup_uri_def example_app_inventory example_inventory_not_empty)
       (simp add: example_inventory_def fmlookup_of_list)
  have h2: "count_list ''/docs/api/pkg.html#pkg.mod.Cls.meth'' CHR ''#'' = 1" by simp
  have s: "str_split CHR ''#'' ''/docs/api/pkg.html#pkg.mod.Cls.meth''
      = [''/docs/api/pkg.html'', ''pkg.mod.Cls.meth'']"
    by simp
  have i: "iterate example_world {|''/docs'', ''https://lib.example.org''|}
      = [''/docs'', ''https://lib.example.org'']"
    by (simp add: iterate_def example_world_def sorted_list_of_fset.rep_eq)
  obtain base anchor where sp: "str_split CHR ''#'' ''/docs/api/pkg.html#pkg.mod.Cls.meth''
      = [base, anchor]"
    and r: "\<forall>roots memo. memoized_roots example_world = (Inr roots, memo) \<longrightarrow>
                 get_source_code example_world ''py:method'' ''pkg.mod.Cls.meth'' =
                   (let root = get_project_url_root base (iterate example_world roots);
                        tokens = str_split CHR ''.'' anchor
                    in if root = [] then
                         (Inl (EnvironmentError
                                 (UrlNotInProjects base (sorted_list_of_fset roots))), memo)
                       else if ''py:method'' = ''py:method'' then
                         (private_get_source_code example_world
                            (root @ ''/_modules/'' @ str_join ''/'' (butlast (butlast tokens))
                               @ ''.html'')
                            (str_join ''.'' (drop (length tokens - 2) tokens)), memo)
                       else
                         (private_get_source_code example_world
                            (root @ ''/_modules/'' @ str_join ''/'' (butlast tokens) @ ''.html'')
                            (last tokens), memo))"
    using split_location_uri [OF h1 h2] by blast
  from sp s have b: "base = ''/docs/api/pkg.html''" and a: "anchor = ''pkg.mod.Cls.meth''"
    by simp_all
  have "get_source_code example_world ''py:method'' ''pkg.mod.Cls.meth''
       = (private_get_source_code example_world ''/docs/_modules/pkg/mod.html'' ''Cls.meth'',
          Some {|''/docs'', ''https://lib.example.org''|})"
    using r [rule_format, OF example_memoized_roots] by (simp add: a b i)
  moreover have "private_get_source_code example_world ''/docs/_modules/pkg/mod.html'' ''Cls.meth''
       = Inr ''def meth(self): pass''"
    by (simp add: private_get_source_code_def fetch_contents_def isabs_def example_world_def
        extract_source_def example_page_def soup_find_def attr_matches_def class_matches_def)
  ultimately show ?thesis using h1 h2 s by simp
qed


text \<open>
  The count of separators matters: a URI with none, or with more than one, is not unpacked
  into two names, and the call ends at line 200.
\<close>

lemma unpack_needs_one_separator:
  assumes "lookup_uri (APPLICATION w) directive namespace = Inr uri"
    and "count_list uri CHR ''#'' \<noteq> 1"
  shows "get_source_code w directive namespace = (Inl ValueError, roots_memo w)"
proof -
  have "length (str_split CHR ''#'' uri) \<noteq> 2"
    using assms(2) by (simp add: length_str_split)
  then show ?thesis
    by (cases "str_split CHR ''#'' uri" rule: list.exhaust;
        cases "tl (str_split CHR ''#'' uri)" rule: list.exhaust;
        cases "tl (tl (str_split CHR ''#'' uri))" rule: list.exhaust)
       (auto simp: get_source_code_def assms(1))
qed

section \<open>The root set and the root of a location\<close>

lemma add_roots_well_formed:
  assumes "\<forall>(key, value) \<in> set mappings. value \<noteq> NoneValue \<and> value \<noteq> SeqValue []"
  shows "\<exists>roots. add_roots mappings acc = Inr roots
           \<and> fset roots = fset acc
               \<union> {key. \<exists>s. (key, StrValue s) \<in> set mappings}
               \<union> {v. \<exists>key vs. (key, SeqValue (v # vs)) \<in> set mappings}"
  using assms
proof (induction mappings acc rule: add_roots.induct)
  case (1 roots)
  then show ?case by simp
next
  case (2 key vs mappings roots)
  then obtain v rest where vs: "vs = v # rest" by (cases vs) auto
  with 2 obtain r where r: "add_roots mappings (finsert v roots) = Inr r"
    "fset r = fset (finsert v roots)
               \<union> {key. \<exists>s. (key, StrValue s) \<in> set mappings}
               \<union> {v. \<exists>key vs. (key, SeqValue (v # vs)) \<in> set mappings}"
    by auto
  show ?case
    using r vs by auto
next
  case (3 key mappings roots)
  then show ?case by simp
next
  case (4 key s mappings roots)
  then obtain r where r: "add_roots mappings (finsert key roots) = Inr r"
    "fset r = fset (finsert key roots)
               \<union> {key. \<exists>s. (key, StrValue s) \<in> set mappings}
               \<union> {v. \<exists>key vs. (key, SeqValue (v # vs)) \<in> set mappings}"
    by auto
  show ?case
    using r by auto
qed

text \<open>
  Claim C3, as the code has it. When every value of the configured mapping is a string or
  a non-empty sequence, the root set holds exactly: the key of each entry whose value is
  a string (line 32 adds \<^verbatim>\<open>key\<close>, not the value), and the first element of the value
  of each entry whose value is a sequence.
\<close>

theorem root_set_of_mapping:
  assumes "intersphinx_mapping a = Some mappings"
    and "\<forall>(key, value) \<in> set mappings. value \<noteq> NoneValue \<and> value \<noteq> SeqValue []"
  shows "\<exists>roots. get_all_intersphinx_roots (Some a) = Inr roots
           \<and> (\<forall>r. r |\<in>| roots \<longleftrightarrow>
                  (\<exists>key s. (key, StrValue s) \<in> set mappings \<and> r = key)
                  \<or> (\<exists>key v vs. (key, SeqValue (v # vs)) \<in> set mappings \<and> r = v))"
proof -
  obtain roots where r: "add_roots mappings {||} = Inr roots"
    "fset roots = fset {||}
               \<union> {key. \<exists>s. (key, StrValue s) \<in> set mappings}
               \<union> {v. \<exists>key vs. (key, SeqValue (v # vs)) \<in> set mappings}"
    using add_roots_well_formed [OF assms(2), of "{||}"] by blast
  have "get_all_intersphinx_roots (Some a) = Inr roots"
    by (simp add: get_all_intersphinx_roots_def assms(1) r(1))
  moreover have "\<forall>r. r |\<in>| roots \<longleftrightarrow>
                  (\<exists>key s. (key, StrValue s) \<in> set mappings \<and> r = key)
                  \<or> (\<exists>key v vs. (key, SeqValue (v # vs)) \<in> set mappings \<and> r = v)"
    using r(2) by auto
  ultimately show ?thesis by blast
qed

theorem root_set_of_mapping_witness:
  "SeqValue [''/docs'', ''objects.inv''] \<noteq> NoneValue
   \<and> SeqValue [''/docs'', ''objects.inv''] \<noteq> SeqValue []
   \<and> StrValue ''lib.inv'' \<noteq> NoneValue \<and> StrValue ''lib.inv'' \<noteq> SeqValue []
   \<and> get_all_intersphinx_roots
        (Some \<lparr>intersphinx_inventory = Some example_inventory,
               intersphinx_mapping = Some
                 [(''proj'', SeqValue [''/docs'', ''objects.inv'']),
                  (''https://lib.example.org'', StrValue ''lib.inv'')]\<rparr>)
       = Inr {|''/docs'', ''https://lib.example.org''|}"
proof -
  let ?ms = "[(''proj'', SeqValue [''/docs'', ''objects.inv'']),
              (''https://lib.example.org'', StrValue ''lib.inv'')]"
  let ?a = "\<lparr>intersphinx_inventory = Some example_inventory, intersphinx_mapping = Some ?ms\<rparr>"
  have h1: "intersphinx_mapping ?a = Some ?ms" by simp
  have h2: "\<forall>(key, value) \<in> set ?ms. value \<noteq> NoneValue \<and> value \<noteq> SeqValue []" by simp
  obtain roots where r: "get_all_intersphinx_roots (Some ?a) = Inr roots"
    and m: "\<forall>r. r |\<in>| roots \<longleftrightarrow>
                  (\<exists>key s. (key, StrValue s) \<in> set ?ms \<and> r = key)
                  \<or> (\<exists>key v vs. (key, SeqValue (v # vs)) \<in> set ?ms \<and> r = v)"
    using root_set_of_mapping [OF h1 h2] by blast
  have "roots = {|''/docs'', ''https://lib.example.org''|}"
    using m by (intro fset_eqI) auto
  with r show ?thesis by simp
qed

text \<open>
  Claim C3 as it is stated fails: for the old format of the mapping, a URI with the name
  of its inventory file, the root set holds the key, and the string value is not in it.
\<close>

theorem string_value_is_not_root_counterexample:
  "get_all_intersphinx_roots
     (Some \<lparr>intersphinx_inventory = None,
            intersphinx_mapping = Some [(''https://docs.python.org/3'', StrValue ''python.inv'')]\<rparr>)
   = Inr {|''https://docs.python.org/3''|}
   \<and> ''python.inv'' |\<notin>| {|''https://docs.python.org/3''|}"
  by (simp add: get_all_intersphinx_roots_def)

lemma get_project_url_root_first:
  "prefix r base \<Longrightarrow> \<forall>x \<in> set pre. \<not> prefix x base \<Longrightarrow>
   get_project_url_root base (pre @ r # post) = r"
  by (induction pre) auto

lemma get_project_url_root_none:
  "\<forall>x \<in> set roots. \<not> prefix x base \<Longrightarrow> get_project_url_root base roots = []"
  by (induction roots) auto

text \<open>
  Claim C4. For every base and every sequence of roots, in the order of the iteration:
  the root that is returned is the first one that is a prefix of the base, whatever comes
  after it, so that a longer root further on does not win. When no member of the root set
  is a prefix of the base of the looked-up URI, \<^verbatim>\<open>get_source_code\<close> raises the
  \<^verbatim>\<open>EnvironmentError\<close> of line 205, whose message carries the base and every root of
  the set in sorted order.
\<close>

theorem root_is_first_prefix_match:
  "(\<forall>pre r post. prefix r base \<and> (\<forall>x \<in> set pre. \<not> prefix x base) \<longrightarrow>
       get_project_url_root base (pre @ r # post) = r)
   \<and> get_project_url_root ''https://host/docs/api/page.html''
        [''https://other'', ''https://host/docs'', ''https://host/docs/api'']
       = ''https://host/docs''
   \<and> (\<forall>uri anchor available_roots memo.
        lookup_uri (APPLICATION w) directive namespace = Inr uri
        \<and> str_split CHR ''#'' uri = [base, anchor]
        \<and> memoized_roots w = (Inr available_roots, memo)
        \<and> (\<forall>r. r |\<in>| available_roots \<longrightarrow> \<not> prefix r base) \<longrightarrow>
        (\<exists>candidates.
           get_source_code w directive namespace
             = (Inl (EnvironmentError (UrlNotInProjects base candidates)), memo)
           \<and> sorted candidates \<and> distinct candidates
           \<and> set candidates = fset available_roots))"
proof (intro conjI allI impI)
  fix pre r post
  assume "prefix r base \<and> (\<forall>x \<in> set pre. \<not> prefix x base)"
  then show "get_project_url_root base (pre @ r # post) = r"
    by (simp add: get_project_url_root_first)
next
  show "get_project_url_root ''https://host/docs/api/page.html''
        [''https://other'', ''https://host/docs'', ''https://host/docs/api'']
       = ''https://host/docs''"
    by simp
next
  fix uri anchor available_roots memo
  assume h: "lookup_uri (APPLICATION w) directive namespace = Inr uri
        \<and> str_split CHR ''#'' uri = [base, anchor]
        \<and> memoized_roots w = (Inr available_roots, memo)
        \<and> (\<forall>r. r |\<in>| available_roots \<longrightarrow> \<not> prefix r base)"
  then have "\<forall>x \<in> set (iterate w available_roots). \<not> prefix x base"
    by (simp add: set_iterate)
  then have "get_project_url_root base (iterate w available_roots) = []"
    by (rule get_project_url_root_none)
  with h have "get_source_code w directive namespace
      = (Inl (EnvironmentError (UrlNotInProjects base (sorted_list_of_fset available_roots))),
         memo)"
    by (simp add: get_source_code_def locate_and_extract_def)
  then show "\<exists>candidates.
           get_source_code w directive namespace
             = (Inl (EnvironmentError (UrlNotInProjects base candidates)), memo)
           \<and> sorted candidates \<and> distinct candidates
           \<and> set candidates = fset available_roots"
    by (simp add: sorted_list_of_fset_sorted sorted_list_of_fset_distinct)
qed

theorem root_is_first_prefix_match_witness:
  "prefix ''/docs'' ''/docs/api/pkg.html'' \<and> \<not> prefix ''https://lib.example.org'' ''/docs/api/pkg.html''
   \<and> get_project_url_root ''/docs/api/pkg.html''
        ([''https://lib.example.org''] @ ''/docs'' # [''/docs/api'']) = ''/docs''
   \<and> lookup_uri (APPLICATION example_world) ''py:function'' ''pkg.mod.aux''
       = Inr ''/elsewhere/api.html#pkg.mod.aux''
   \<and> str_split CHR ''#'' ''/elsewhere/api.html#pkg.mod.aux'' = [''/elsewhere/api.html'', ''pkg.mod.aux'']
   \<and> \<not> prefix ''/docs'' ''/elsewhere/api.html''
   \<and> \<not> prefix ''https://lib.example.org'' ''/elsewhere/api.html''
   \<and> get_source_code example_world ''py:function'' ''pkg.mod.aux''
       = (Inl (EnvironmentError (UrlNotInProjects ''/elsewhere/api.html''
                 [''/docs'', ''https://lib.example.org''])),
          Some {|''/docs'', ''https://lib.example.org''|})"
proof -
  have p1: "prefix ''/docs'' ''/docs/api/pkg.html''
      \<and> (\<forall>x \<in> set [''https://lib.example.org'']. \<not> prefix x ''/docs/api/pkg.html'')"
    by simp
  have a: "get_project_url_root ''/docs/api/pkg.html''
        ([''https://lib.example.org''] @ ''/docs'' # [''/docs/api'']) = ''/docs''"
    using root_is_first_prefix_match [of "''/docs/api/pkg.html''", THEN conjunct1, rule_format,
        OF p1] .
  have l: "lookup_uri (APPLICATION example_world) ''py:function'' ''pkg.mod.aux''
       = Inr ''/elsewhere/api.html#pkg.mod.aux''"
    by (simp add: lookup_uri_def example_app_inventory example_inventory_not_empty)
       (simp add: example_inventory_def fmlookup_of_list)
  have s: "str_split CHR ''#'' ''/elsewhere/api.html#pkg.mod.aux''
      = [''/elsewhere/api.html'', ''pkg.mod.aux'']"
    by simp
  have n: "\<forall>r. r |\<in>| {|''/docs'', ''https://lib.example.org''|}
              \<longrightarrow> \<not> prefix r ''/elsewhere/api.html''"
    by simp
  obtain candidates where c: "get_source_code example_world ''py:function'' ''pkg.mod.aux''
             = (Inl (EnvironmentError (UrlNotInProjects ''/elsewhere/api.html'' candidates)),
                Some {|''/docs'', ''https://lib.example.org''|})"
    using root_is_first_prefix_match [of "''/elsewhere/api.html''" example_world
        "''py:function''" "''pkg.mod.aux''", THEN conjunct2, THEN conjunct2, rule_format,
        of "''/elsewhere/api.html#pkg.mod.aux''" "''pkg.mod.aux''"
           "{|''/docs'', ''https://lib.example.org''|}"
           "Some {|''/docs'', ''https://lib.example.org''|}"]
      l s n example_memoized_roots
    by blast
  have u: "get_project_url_root ''/elsewhere/api.html''
             (iterate example_world {|''/docs'', ''https://lib.example.org''|}) = []"
    by (rule get_project_url_root_none) (simp add: set_iterate)
  have "get_source_code example_world ''py:function'' ''pkg.mod.aux''
       = (Inl (EnvironmentError (UrlNotInProjects ''/elsewhere/api.html''
                 (sorted_list_of_fset {|''/docs'', ''https://lib.example.org''|}))),
          Some {|''/docs'', ''https://lib.example.org''|})"
    by (simp add: get_source_code_def l locate_and_extract_def example_memoized_roots u)
  with c have "candidates = sorted_list_of_fset {|''/docs'', ''https://lib.example.org''|}"
    by simp
  then have "candidates = [''/docs'', ''https://lib.example.org'']"
    by (simp add: sorted_list_of_fset.rep_eq)
  with c show ?thesis using a l s by simp
qed

section \<open>Fetching the page\<close>




section \<open>Extracting the source\<close>

lemma class_matches_viewcode_back:
  "class_matches classes ''viewcode-back'' = (''viewcode-back'' \<in> set classes)"
proof (cases classes)
  case Nil
  then show ?thesis by (simp add: class_matches_def)
next
  case (Cons x xs)
  show ?thesis
  proof (cases xs)
    case Nil
    with Cons show ?thesis by (auto simp: class_matches_def)
  next
    case (Cons y ys)
    have "CHR '' '' \<in> set (str_join '' '' (x # y # ys))" by simp
    moreover have "CHR '' '' \<notin> set ''viewcode-back''" by simp
    ultimately have "str_join '' '' (x # y # ys) \<noteq> ''viewcode-back''" by metis
    with Cons \<open>classes = x # xs\<close> show ?thesis by (simp add: class_matches_def)
  qed
qed

lemma attr_matches_id:
  "attr_matches (map_of attrs ''id'') anchor
     = (map_of attrs ''id'' = Some anchor \<or> anchor = [] \<and> map_of attrs ''id'' = None)"
  by (auto simp: attr_matches_def split: option.splits)

lemma text_of_pruned:
  "concat (map getText (decompose_all is_viewcode_back ns))
     = concat (map text_outside_back_links ns)"
  by (induction is_viewcode_back ns rule: decompose_all.induct)
     (simp_all add: class_matches_viewcode_back)

lemma case_append_first:
  "(case xs @ ys of [] \<Rightarrow> None | n # _ \<Rightarrow> Some (f n))
     = (case xs of [] \<Rightarrow> (case ys of [] \<Rightarrow> None | n # _ \<Rightarrow> Some (f n)) | n # _ \<Rightarrow> Some (f n))"
  by (cases xs) simp_all

text \<open>
  The two steps of the code against the one pass: the text of the first match in the
  pruned tree is the text outside back links of the first \<^verbatim>\<open>div\<close> outside back links.
\<close>

lemma first_text_of_pruned:
  "(case find_all (is_div_with_id anchor) (decompose_all is_viewcode_back ns) of
      [] \<Rightarrow> None | n # _ \<Rightarrow> Some (getText n))
   = map_option text_outside_back_links (first_div_outside_back_links anchor ns)"
proof (induction is_viewcode_back ns rule: decompose_all.induct)
  case 1
  then show ?case by simp
next
  case (2 s ns)
  then show ?case by simp
next
  case (3 nm classes attrs children ns)
  show ?case
  proof (cases "nm = ''a'' \<and> ''viewcode-back'' \<in> set classes")
    case True
    with 3 show ?thesis by (simp add: class_matches_viewcode_back)
  next
    case nb: False
    then have nb': "\<not> is_viewcode_back (Tag nm classes attrs children)"
      by (simp add: class_matches_viewcode_back)
    show ?thesis
    proof (cases "nm = ''div'' \<and> (map_of attrs ''id'' = Some anchor
                               \<or> anchor = [] \<and> map_of attrs ''id'' = None)")
      case True
      with nb nb' show ?thesis
        by (simp add: attr_matches_id text_of_pruned class_matches_viewcode_back)
    next
      case False
      let ?P = "is_div_with_id anchor"
      let ?kids = "find_all ?P (decompose_all is_viewcode_back children)"
      let ?rest = "find_all ?P (decompose_all is_viewcode_back ns)"
      have nd: "\<not> ?P (Tag nm classes attrs (decompose_all is_viewcode_back children))"
        using False by (simp add: attr_matches_id)
      have lhs: "find_all ?P (decompose_all is_viewcode_back (Tag nm classes attrs children # ns))
                   = ?kids @ ?rest"
        by (simp only: decompose_all.simps find_all.simps nb' nd if_False append_Nil)
      have rhs: "first_div_outside_back_links anchor (Tag nm classes attrs children # ns)
                   = (case first_div_outside_back_links anchor children of
                        Some node \<Rightarrow> Some node
                      | None \<Rightarrow> first_div_outside_back_links anchor ns)"
        by (simp only: first_div_outside_back_links.simps nb False if_False)
      have ih1: "(case ?kids of [] \<Rightarrow> None | n # _ \<Rightarrow> Some (getText n))
                   = map_option text_outside_back_links
                       (first_div_outside_back_links anchor children)"
        using 3(2)[OF nb'] .
      have ih2: "(case ?rest of [] \<Rightarrow> None | n # _ \<Rightarrow> Some (getText n))
                   = map_option text_outside_back_links
                       (first_div_outside_back_links anchor ns)"
        using 3(3)[OF nb'] .
      show ?thesis
      proof (cases "first_div_outside_back_links anchor children")
        case None
        with ih1 have "?kids = []" by (cases ?kids) simp_all
        with ih2 None show ?thesis unfolding lhs rhs by simp
      next
        case (Some node)
        with ih1 obtain n more where k: "?kids = n # more"
          and t: "getText n = text_outside_back_links node"
          by (cases ?kids) simp_all
        with Some show ?thesis unfolding lhs rhs by simp
      qed
    qed
  qed
qed

lemma first_div_is_div:
  "first_div_outside_back_links anchor ns = Some node \<Longrightarrow>
     (\<exists>classes attrs children. node = Tag ''div'' classes attrs children
        \<and> (map_of attrs ''id'' = Some anchor \<or> anchor = [] \<and> map_of attrs ''id'' = None))
     \<and> node \<in> set (find_all (\<lambda>n. True) ns)"
  by (induction anchor ns rule: first_div_outside_back_links.induct)
     (auto split: if_splits option.splits)

lemma find_all_subset: "set (find_all P ns) \<subseteq> set (find_all (\<lambda>n. True) ns)"
  by (induction P ns rule: find_all.induct) auto

lemma find_all_satisfies: "n \<in> set (find_all Q ns) \<Longrightarrow> Q n"
  by (induction Q ns rule: find_all.induct) (auto split: if_splits)

lemma find_all_div_decompose_all:
  "find_all (is_div_with_id anchor) ns = [] \<Longrightarrow>
   find_all (is_div_with_id anchor) (decompose_all Q ns) = []"
  by (induction Q ns rule: decompose_all.induct) (auto split: if_splits)

text \<open>
  Claim C6, as the code has it. For every parsed page and every anchor: removing the
  back links and then taking the text of the first \<^verbatim>\<open>div\<close> that the search finds gives
  the text, with the back links and all they contain left out, of the first \<^verbatim>\<open>div\<close>
  element of the page that is not inside a back link and whose \<^verbatim>\<open>id\<close> is the anchor
  (for the empty anchor, a \<^verbatim>\<open>div\<close> with no \<^verbatim>\<open>id\<close> counts too); when the page has no
  such element, also when the only one is inside a back link, the call on \<^verbatim>\<open>None\<close>
  raises \<^verbatim>\<open>AttributeError\<close>. The element taken is a \<^verbatim>\<open>div\<close> element of the page. The
  page of the spec, a \<^verbatim>\<open>div\<close> with id \<^verbatim>\<open>Cls.meth\<close> and text \<^verbatim>\<open>code\<close> followed by a back
  link with text \<^verbatim>\<open>back\<close>, gives \<^verbatim>\<open>code\<close>.
\<close>

theorem extract_is_first_div_outside_back_links:
  "extract_source soup anchor =
     (case first_div_outside_back_links anchor soup of
        None \<Rightarrow> Inl AttributeError
      | Some node \<Rightarrow> Inr (text_outside_back_links node))
   \<and> (\<forall>node. first_div_outside_back_links anchor soup = Some node \<longrightarrow>
         (\<exists>classes attrs children. node = Tag ''div'' classes attrs children
            \<and> (map_of attrs ''id'' = Some anchor \<or> anchor = [] \<and> map_of attrs ''id'' = None))
         \<and> node \<in> set (find_all (\<lambda>n. True) soup))
   \<and> extract_source
        [Tag ''div'' [] [(''id'', ''Cls.meth'')] [NavigableString ''code''],
         Tag ''a'' [''viewcode-back''] [] [NavigableString ''back'']]
        ''Cls.meth'' = Inr ''code''"
proof (intro conjI allI impI)
  show "extract_source soup anchor =
     (case first_div_outside_back_links anchor soup of
        None \<Rightarrow> Inl AttributeError
      | Some node \<Rightarrow> Inr (text_outside_back_links node))"
  proof (cases "first_div_outside_back_links anchor soup")
    case None
    with first_text_of_pruned [of anchor soup] show ?thesis
      by (simp add: extract_source_def soup_find_def split: list.splits)
  next
    case (Some node)
    with first_text_of_pruned [of anchor soup] show ?thesis
      by (simp add: extract_source_def soup_find_def split: list.splits)
  qed
next
  fix node
  assume "first_div_outside_back_links anchor soup = Some node"
  from first_div_is_div [OF this]
  show "\<exists>classes attrs children. node = Tag ''div'' classes attrs children
            \<and> (map_of attrs ''id'' = Some anchor \<or> anchor = [] \<and> map_of attrs ''id'' = None)"
    and "node \<in> set (find_all (\<lambda>n. True) soup)"
    by blast+
next
  show "extract_source
        [Tag ''div'' [] [(''id'', ''Cls.meth'')] [NavigableString ''code''],
         Tag ''a'' [''viewcode-back''] [] [NavigableString ''back'']]
        ''Cls.meth'' = Inr ''code''"
    by (simp add: extract_source_def soup_find_def attr_matches_def class_matches_def)
qed

theorem extract_is_first_div_outside_back_links_witness:
  "first_div_outside_back_links ''Cls.meth'' example_page
     = Some (Tag ''div'' [''viewcode-block''] [(''id'', ''Cls.meth'')]
               [Tag ''a'' [''viewcode-back''] [(''href'', ''../api.html'')]
                  [NavigableString ''[docs]''],
                NavigableString ''def meth(self): pass''])
   \<and> extract_source example_page ''Cls.meth'' = Inr ''def meth(self): pass''
   \<and> extract_source
        [Tag ''a'' [''viewcode-back''] []
           [Tag ''div'' [] [(''id'', ''Cls.meth'')] [NavigableString ''code'']]]
        ''Cls.meth'' = Inl AttributeError
   \<and> extract_source
        [Tag ''div'' [] [] [NavigableString ''first''],
         Tag ''div'' [] [(''id'', [])] [NavigableString ''second'']]
        [] = Inr ''first''"
proof -
  have h: "first_div_outside_back_links ''Cls.meth'' example_page
     = Some (Tag ''div'' [''viewcode-block''] [(''id'', ''Cls.meth'')]
               [Tag ''a'' [''viewcode-back''] [(''href'', ''../api.html'')]
                  [NavigableString ''[docs]''],
                NavigableString ''def meth(self): pass''])"
    by (simp add: example_page_def)
  have a: "extract_source example_page ''Cls.meth'' = Inr ''def meth(self): pass''"
    using extract_is_first_div_outside_back_links [of example_page "''Cls.meth''",
        THEN conjunct1]
    by (simp add: h)
  have b: "extract_source
        [Tag ''a'' [''viewcode-back''] []
           [Tag ''div'' [] [(''id'', ''Cls.meth'')] [NavigableString ''code'']]]
        ''Cls.meth'' = Inl AttributeError"
    using extract_is_first_div_outside_back_links [of
        "[Tag ''a'' [''viewcode-back''] []
           [Tag ''div'' [] [(''id'', ''Cls.meth'')] [NavigableString ''code'']]]" "''Cls.meth''",
        THEN conjunct1]
    by simp
  have c: "extract_source
        [Tag ''div'' [] [] [NavigableString ''first''],
         Tag ''div'' [] [(''id'', [])] [NavigableString ''second'']]
        [] = Inr ''first''"
    using extract_is_first_div_outside_back_links [of
        "[Tag ''div'' [] [] [NavigableString ''first''],
          Tag ''div'' [] [(''id'', [])] [NavigableString ''second'']]" "[]",
        THEN conjunct1]
    by simp
  show ?thesis using h a b c by simp
qed

text \<open>
  Claim C6 as it is stated fails on a page whose only element with the requested id is
  not a \<^verbatim>\<open>div\<close>: nothing is returned, \<^verbatim>\<open>find\<close> gives \<^verbatim>\<open>None\<close> and \<^verbatim>\<open>getText\<close> is
  called on it.
\<close>

theorem extract_span_counterexample:
  "extract_source [Tag ''span'' [] [(''id'', ''Cls.meth'')] [NavigableString ''code'']]
     ''Cls.meth'' = Inl AttributeError"
  by (simp add: extract_source_def soup_find_def attr_matches_def)

text \<open>
  Claim C10, as the code has it. The search of line 141 is for \<^verbatim>\<open>div\<close> elements only.
  For every page that was fetched and whose parsed tree has no \<^verbatim>\<open>div\<close> element with
  \<^verbatim>\<open>id\<close> equal to the anchor and, when the anchor is empty, no \<^verbatim>\<open>div\<close> element
  without an \<^verbatim>\<open>id\<close> either, \<^verbatim>\<open>_get_source_code\<close> returns no string: it raises the
  \<^verbatim>\<open>AttributeError\<close> of a call on \<^verbatim>\<open>None\<close>, which is none of the exceptions the module
  raises itself. An element of another name with that id changes nothing: a \<^verbatim>\<open>pre\<close>
  element with the id gives the same fault.
\<close>

theorem missing_div_is_attribute_error:
  assumes "fetch_contents w page = Inr contents"
    and "\<forall>nm classes attrs children.
           Tag nm classes attrs children \<in> set (find_all (\<lambda>n. True) (html_parser w contents))
           \<and> nm = ''div'' \<longrightarrow>
           map_of attrs ''id'' \<noteq> Some anchor \<and> (anchor = [] \<longrightarrow> map_of attrs ''id'' \<noteq> None)"
  shows "private_get_source_code w page anchor = Inl AttributeError
         \<and> extract_source
              [Tag ''pre'' [] [(''id'', ''pkg.func'')] [NavigableString ''def func(): pass'']]
              ''pkg.func'' = Inl AttributeError"
proof
  have "find_all (is_div_with_id anchor) (html_parser w contents) = []"
  proof (rule ccontr)
    assume "find_all (is_div_with_id anchor) (html_parser w contents) \<noteq> []"
    then obtain n where n: "n \<in> set (find_all (is_div_with_id anchor) (html_parser w contents))"
      by (cases "find_all (is_div_with_id anchor) (html_parser w contents)") auto
    then have p: "is_div_with_id anchor n"
      by (rule find_all_satisfies)
    from n have m: "n \<in> set (find_all (\<lambda>n. True) (html_parser w contents))"
      using find_all_subset by blast
    from p obtain nm classes attrs children where t: "n = Tag nm classes attrs children"
      by (cases n) auto
    with p have "nm = ''div''"
      "map_of attrs ''id'' = Some anchor \<or> anchor = [] \<and> map_of attrs ''id'' = None"
      by (simp_all add: attr_matches_id)
    with assms(2) m t show False by blast
  qed
  then have "find_all (is_div_with_id anchor)
               (decompose_all is_viewcode_back (html_parser w contents)) = []"
    by (rule find_all_div_decompose_all)
  then show "private_get_source_code w page anchor = Inl AttributeError"
    by (simp add: private_get_source_code_def assms(1) extract_source_def soup_find_def)
next
  show "extract_source
          [Tag ''pre'' [] [(''id'', ''pkg.func'')] [NavigableString ''def func(): pass'']]
          ''pkg.func'' = Inl AttributeError"
    by (simp add: extract_source_def soup_find_def attr_matches_def)
qed

theorem missing_div_is_attribute_error_witness:
  "fetch_contents example_world ''/docs/_modules/pkg/mod.html'' = Inr ''<html>''
   \<and> find_all (\<lambda>n. True) (html_parser example_world ''<html>'')
       = [Tag ''div'' [''viewcode-block''] [(''id'', ''Cls.meth'')]
            [Tag ''a'' [''viewcode-back''] [(''href'', ''../api.html'')]
               [NavigableString ''[docs]''],
             NavigableString ''def meth(self): pass''],
          Tag ''a'' [''viewcode-back''] [(''href'', ''../api.html'')]
            [NavigableString ''[docs]'']]
   \<and> map_of [(''id'', ''Cls.meth'')] ''id'' \<noteq> Some ''Cls.other''
   \<and> ''Cls.other'' \<noteq> []
   \<and> private_get_source_code example_world ''/docs/_modules/pkg/mod.html'' ''Cls.other''
       = Inl AttributeError"
proof -
  have h1: "fetch_contents example_world ''/docs/_modules/pkg/mod.html'' = Inr ''<html>''"
    by (simp add: fetch_contents_def isabs_def example_world_def)
  have e: "find_all (\<lambda>n. True) (html_parser example_world ''<html>'')
       = [Tag ''div'' [''viewcode-block''] [(''id'', ''Cls.meth'')]
            [Tag ''a'' [''viewcode-back''] [(''href'', ''../api.html'')]
               [NavigableString ''[docs]''],
             NavigableString ''def meth(self): pass''],
          Tag ''a'' [''viewcode-back''] [(''href'', ''../api.html'')]
            [NavigableString ''[docs]'']]"
    by (simp add: example_world_def example_page_def)
  have h2: "\<forall>nm classes attrs children.
           Tag nm classes attrs children
             \<in> set (find_all (\<lambda>n. True) (html_parser example_world ''<html>''))
           \<and> nm = ''div'' \<longrightarrow>
           map_of attrs ''id'' \<noteq> Some ''Cls.other''
           \<and> (''Cls.other'' = [] \<longrightarrow> map_of attrs ''id'' \<noteq> None)"
    unfolding e by auto
  show ?thesis
    using h1 e missing_div_is_attribute_error [OF h1 h2] by simp
qed

text \<open>
  Claim C10 as it is stated fails for the empty anchor, which the path builder computes
  from an anchor that ends with a dot: on a page whose only \<^verbatim>\<open>div\<close> has no \<^verbatim>\<open>id\<close>, so
  that no \<^verbatim>\<open>div\<close> has an \<^verbatim>\<open>id\<close> equal to the anchor, the filter of bs4 accepts that
  \<^verbatim>\<open>div\<close> and its text is returned.
\<close>

theorem div_without_id_counterexample:
  "get_module_tag ''pkg.mod.'' ''py:function'' = Inr (''_modules/pkg/mod.html'', [])
   \<and> html_parser
        (example_world\<lparr>html_parser := \<lambda>contents. [Tag ''div'' [] [] [NavigableString ''first'']]\<rparr>)
        ''<html>''
       = [Tag ''div'' [] [] [NavigableString ''first'']]
   \<and> map_of ([] :: (string \<times> string) list) ''id'' \<noteq> Some []
   \<and> private_get_source_code
        (example_world\<lparr>html_parser := \<lambda>contents. [Tag ''div'' [] [] [NavigableString ''first'']]\<rparr>)
        ''/docs/_modules/pkg/mod.html'' [] = Inr ''first''"
  by (simp add: get_module_tag_def slice_until_last_def index_last_def
      private_get_source_code_def fetch_contents_def isabs_def example_world_def
      extract_source_def soup_find_def attr_matches_def)

end
